theory Spec2Isabelle
  imports Main "HOL-Library.AList"
begin

unbundle bit_operations_syntax

section \<open>Python values and failures\<close>

text \<open>
  The generator is a Python script.  Corner and edge indices are natural numbers,
  bit patterns and coordinates are (unbounded) integers, tuples and lists of indices
  are lists, a \<open>frozenset\<close> of corners is a set, and a \<open>dict\<close> is an association
  list in insertion order (the order in which Python iterates over it).
  Every place where the script can raise is a branch returning \<open>Inl\<close>.
\<close>

datatype py_error = IndexError | KeyError | ValueError | AssertionError

type_synonym perm = "nat list"
type_synonym face = "nat list"
type_synonym faces = "face list"
type_synonym 'v pydict = "(int \<times> 'v) list"

text \<open>\<open>xs[i]\<close> for a non-negative index.\<close>

definition getitem :: "'a list \<Rightarrow> nat \<Rightarrow> py_error + 'a" where
  "getitem xs i = (if i < length xs then Inr (xs ! i) else Inl IndexError)"

text \<open>\<open>d[k]\<close> on a dict.\<close>

definition dict_get :: "('k \<times> 'v) list \<Rightarrow> 'k \<Rightarrow> py_error + 'v" where
  "dict_get d k = (case map_of d k of None \<Rightarrow> Inl KeyError | Some v \<Rightarrow> Inr v)"

text \<open>A list comprehension whose element expression can raise: the first failure wins.\<close>

fun map_e :: "('a \<Rightarrow> py_error + 'b) \<Rightarrow> 'a list \<Rightarrow> py_error + 'b list" where
  "map_e f [] = Inr []"
| "map_e f (x # xs) =
     (case f x of
        Inl e \<Rightarrow> Inl e
      | Inr y \<Rightarrow> (case map_e f xs of Inl e \<Rightarrow> Inl e | Inr ys \<Rightarrow> Inr (y # ys)))"

text \<open>A \<open>for\<close> loop that updates a state and can raise.\<close>

fun for_e :: "'a list \<Rightarrow> ('a \<Rightarrow> 's \<Rightarrow> py_error + 's) \<Rightarrow> 's \<Rightarrow> py_error + 's" where
  "for_e [] body s = Inr s"
| "for_e (x # xs) body s =
     (case body x s of Inl e \<Rightarrow> Inl e | Inr s' \<Rightarrow> for_e xs body s')"

section \<open>Cube geometry\<close>

definition VERTICES :: "(int \<times> int \<times> int) list" where
  "VERTICES =
    [(0, 0, 0), (1, 0, 0), (1, 1, 0), (0, 1, 0),
     (0, 0, 1), (1, 0, 1), (1, 1, 1), (0, 1, 1)]"

definition EDGES :: "(nat \<times> nat) list" where
  "EDGES =
    [(0, 1), (1, 2), (2, 3), (3, 0),
     (4, 5), (5, 6), (6, 7), (7, 4),
     (0, 4), (1, 5), (2, 6), (3, 7)]"

text \<open>
  \<open>EDGES_BY_VERTSET\<close> is filled by a loop over \<open>enumerate(EDGES)\<close>; its keys are
  frozensets of the two corners.
\<close>

definition EDGES_BY_VERTSET :: "nat set \<rightharpoonup> nat" where
  "EDGES_BY_VERTSET =
     fold (\<lambda>(e, (v1, v2)) d. d({v1, v2} \<mapsto> e)) (List.enumerate 0 EDGES) Map.empty"

text \<open>The subscription \<open>EDGES_BY_VERTSET[vs]\<close>.\<close>

definition edge_of :: "nat set \<Rightarrow> py_error + nat" where
  "edge_of vs = (case EDGES_BY_VERTSET vs of None \<Rightarrow> Inl KeyError | Some e \<Rightarrow> Inr e)"

section \<open>Base cases\<close>

definition BASE_CASES_0 :: "faces pydict" where
  "BASE_CASES_0 =
    [(0, []),
     (1, [[8, 0, 3]]),
     (3, [[8, 1, 3], [8, 9, 1]]),
     (5, [[8, 0, 3], [1, 10, 2]]),
     (65, [[8, 0, 3], [10, 6, 5]]),
     (50, [[8, 7, 0], [0, 7, 1], [1, 7, 5]]),
     (67, [[8, 1, 3], [8, 9, 1], [10, 6, 5]]),
     (74, [[3, 2, 11], [0, 9, 1], [10, 6, 5]]),
     (51, [[7, 5, 3], [3, 5, 1]]),
     (177, [[11, 6, 3], [3, 6, 0], [0, 6, 5], [0, 5, 9]]),
     (105, [[11, 8, 2], [8, 2, 0], [6, 10, 4], [4, 10, 9]]),
     (113, [[3, 7, 0], [0, 7, 10], [7, 6, 10], [0, 10, 9]]),
     (58, [[3, 2, 11], [8, 7, 0], [0, 7, 1], [1, 7, 5]]),
     (165, [[8, 0, 3], [4, 5, 9], [10, 2, 1], [11, 6, 7]]),
     (178, [[8, 11, 0], [0, 11, 5], [5, 11, 6], [0, 5, 1]])]"

definition INVERSE_CASES :: "faces pydict" where
  "INVERSE_CASES =
    [(255 - 5, [[3, 2, 8], [8, 2, 10], [8, 10, 1], [8, 1, 0]]),
     (255 - 67, [[6, 8, 3], [6, 9, 8], [6, 5, 9], [6, 3, 1], [6, 10, 1]]),
     (255 - 74, [[3, 11, 0], [0, 11, 6], [0, 6, 9], [9, 6, 5], [1, 10, 2]]),
     (255 - 58, [[8, 0, 3], [2, 7, 11], [7, 2, 1], [7, 1, 5]])]"

text \<open>
  The loop \<open>for bits, faces in INVERSE_CASES.items(): BASE_CASES[bits] = faces\<close>.
  Assigning to a key of a dict keeps the position of a key that is there and appends
  a new one, which is what \<open>AList.update\<close> does.
\<close>

definition BASE_CASES :: "faces pydict" where
  "BASE_CASES = fold (\<lambda>(bits, faces) d. AList.update bits faces d) INVERSE_CASES BASE_CASES_0"

section \<open>Vertex permutations\<close>

definition ROTATE_1 :: perm where "ROTATE_1 = [1, 2, 3, 0, 5, 6, 7, 4]"
definition ROTATE_2 :: perm where "ROTATE_2 = [3, 2, 6, 7, 0, 1, 5, 4]"
definition ROTATE_3 :: perm where "ROTATE_3 = [1, 5, 6, 2, 0, 4, 7, 3]"
definition REFLECT :: perm where "REFLECT = [1, 0, 3, 2, 5, 4, 7, 6]"

definition bits_to_verts :: "int \<Rightarrow> nat list" where
  "bits_to_verts n = [v \<leftarrow> [0..<8]. 2 ^ v AND n > 0]"

definition verts_to_bits :: "nat list \<Rightarrow> int" where
  "verts_to_bits vs = sum_list (map (\<lambda>v. 2 ^ v) vs)"

definition bits_apply :: "perm \<Rightarrow> int \<Rightarrow> py_error + int" where
  "bits_apply op n =
     (case map_e (getitem op) (bits_to_verts n) of
        Inl e \<Rightarrow> Inl e
      | Inr vs \<Rightarrow> Inr (verts_to_bits vs))"

definition edge_apply :: "perm \<Rightarrow> nat \<Rightarrow> py_error + nat" where
  "edge_apply op edge =
     (case getitem EDGES edge of
        Inl e \<Rightarrow> Inl e
      | Inr (a, b) \<Rightarrow>
          (case map_e (getitem op) [a, b] of
             Inl e \<Rightarrow> Inl e
           | Inr vs \<Rightarrow> edge_of (set vs)))"

definition face_apply :: "perm \<Rightarrow> face \<Rightarrow> bool \<Rightarrow> py_error + face" where
  "face_apply op face flip =
     (case map_e (edge_apply op) face of
        Inl e \<Rightarrow> Inl e
      | Inr edges \<Rightarrow> Inr (if flip then rev edges else edges))"

definition faces_apply :: "perm \<Rightarrow> faces \<Rightarrow> bool \<Rightarrow> py_error + faces" where
  "faces_apply op faces flip = map_e (\<lambda>face. face_apply op face flip) faces"

text \<open>\<open>compose(*ops)\<close> takes its arguments as a list.\<close>

fun compose :: "perm list \<Rightarrow> py_error + perm" where
  "compose [] = Inr [0, 1, 2, 3, 4, 5, 6, 7]"
| "compose [op1] = Inr op1"
| "compose [op1, op2] =
     map_e (\<lambda>v. case getitem op1 v of Inl e \<Rightarrow> Inl e | Inr w \<Rightarrow> getitem op2 w) [0..<8]"
| "compose (op1 # rest) =
     (case compose rest of Inl e \<Rightarrow> Inl e | Inr r \<Rightarrow> compose [op1, r])"

text \<open>\<open>[op] * n\<close> is the empty list when \<open>n\<close> is not positive.\<close>

definition pow :: "perm \<Rightarrow> int \<Rightarrow> py_error + perm" where
  "pow op n = compose (replicate (nat n) op)"

section \<open>The closure loop\<close>

text \<open>
  The body of the innermost loop, for one entry \<open>(bits, faces)\<close> of \<open>BASE_CASES\<close>:
  the new faces are computed, and stored, only when \<open>new_bits\<close> is not yet a key.
\<close>

definition case_step ::
  "bool \<Rightarrow> perm \<Rightarrow> bool \<Rightarrow> int \<times> faces \<Rightarrow> faces pydict \<Rightarrow> py_error + faces pydict" where
  "case_step invert op flip = (\<lambda>(bits, faces) cases.
     (case bits_apply op bits of
        Inl e \<Rightarrow> Inl e
      | Inr nb \<Rightarrow>
          (let new_bits = (if invert then 255 - nb else nb) in
           if map_of cases new_bits = None then
             (case faces_apply op faces flip of
                Inl e \<Rightarrow> Inl e
              | Inr new_faces \<Rightarrow> Inr (AList.update new_bits new_faces cases))
           else Inr cases)))"

text \<open>The permutation of one iteration.\<close>

definition make_op :: "int \<Rightarrow> int \<Rightarrow> int \<Rightarrow> int \<Rightarrow> py_error + perm" where
  "make_op r1 r2 r3 rfl =
     (case pow ROTATE_1 r1 of
        Inl e \<Rightarrow> Inl e
      | Inr p1 \<Rightarrow>
     (case pow ROTATE_2 r2 of
        Inl e \<Rightarrow> Inl e
      | Inr p2 \<Rightarrow>
     (case pow ROTATE_3 r3 of
        Inl e \<Rightarrow> Inl e
      | Inr p3 \<Rightarrow>
     (case pow REFLECT rfl of
        Inl e \<Rightarrow> Inl e
      | Inr p4 \<Rightarrow> compose [p1, p2, p3, p4]))))"

text \<open>The body of the loop over \<open>refl\<close> (written \<open>rfl\<close> here): one symmetry operation applied to all base cases.\<close>

definition op_step ::
  "bool \<times> int \<times> int \<times> int \<times> int \<Rightarrow> faces pydict \<Rightarrow> py_error + faces pydict" where
  "op_step = (\<lambda>(invert, r1, r2, r3, rfl) cases.
     (case make_op r1 r2 r3 rfl of
        Inl e \<Rightarrow> Inl e
      | Inr op \<Rightarrow>
          (let flip = (invert \<noteq> (rfl = 1)) in
           for_e BASE_CASES (case_step invert op flip) cases)))"

text \<open>The five nested loops, in the order in which they run.\<close>

definition operations :: "(bool \<times> int \<times> int \<times> int \<times> int) list" where
  "operations =
     [(invert, r1, r2, r3, rfl).
        invert \<leftarrow> [False, True], r1 \<leftarrow> [0..3], r2 \<leftarrow> [0..3], r3 \<leftarrow> [0..3], rfl \<leftarrow> [0..1]]"

definition build_cases :: "py_error + faces pydict" where
  "build_cases = for_e operations op_step []"

section \<open>The two checks and the output\<close>

text \<open>
  \<open>test1\<close>: \<open>all_edges\<close> is a set, walked here without repetitions; the order of the
  walk does not change whether the check passes.  For a pair of booleans the sum
  counts the true ones.
\<close>

definition test1_edge :: "nat list \<Rightarrow> nat \<Rightarrow> unit \<Rightarrow> py_error + unit" where
  "test1_edge verts edge = (\<lambda>_.
     (case getitem EDGES edge of
        Inl e \<Rightarrow> Inl e
      | Inr (a, b) \<Rightarrow>
          if (if a \<in> set verts then 1 else 0) + (if b \<in> set verts then 1 else 0) = (1::int)
          then Inr () else Inl AssertionError))"

definition test1_bits :: "faces pydict \<Rightarrow> int \<Rightarrow> unit \<Rightarrow> py_error + unit" where
  "test1_bits cases bits = (\<lambda>_.
     (let verts = bits_to_verts bits in
      case dict_get cases bits of
        Inl e \<Rightarrow> Inl e
      | Inr faces \<Rightarrow> for_e (remdups (concat faces)) (test1_edge verts) ()))"

definition test1 :: "faces pydict \<Rightarrow> py_error + unit" where
  "test1 cases = for_e [0..255] (test1_bits cases) ()"

text \<open>\<open>test2\<close>, with its two local functions.\<close>

definition d_midpoint :: "nat \<Rightarrow> py_error + int list" where
  "d_midpoint edge =
     (case getitem EDGES edge of
        Inl e \<Rightarrow> Inl e
      | Inr (v0, v1) \<Rightarrow>
          (case getitem VERTICES v0 of
             Inl e \<Rightarrow> Inl e
           | Inr (x0, y0, z0) \<Rightarrow>
               (case getitem VERTICES v1 of
                  Inl e \<Rightarrow> Inl e
                | Inr (x1, y1, z1) \<Rightarrow>
                    Inr (map (\<lambda>(x, y). x + y) (zip [x0, y0, z0] [x1, y1, z1])))))"

definition length_sq :: "int list \<Rightarrow> int list \<Rightarrow> int" where
  "length_sq pos1 pos2 = sum_list (map (\<lambda>(x, y). (x - y)\<^sup>2) (zip pos1 pos2))"

text \<open>
  \<open>Counter(xs)\<close>: a dict from each element to the number of its occurrences, in the
  order of first occurrence.
\<close>

definition Counter :: "'a list \<Rightarrow> ('a \<times> nat) list" where
  "Counter xs =
     fold (\<lambda>x d. AList.update x (case map_of d x of None \<Rightarrow> 1 | Some c \<Rightarrow> c + 1) d) xs []"

text \<open>
  The seam \<open>frozenset([face[i], face[(i+1) % 3]])\<close> of a face, for \<open>i\<close> in \<open>range(3)\<close>.
\<close>

definition face_pairs :: "face \<Rightarrow> py_error + nat set list" where
  "face_pairs face =
     map_e (\<lambda>i. case getitem face i of
                  Inl e \<Rightarrow> Inl e
                | Inr x \<Rightarrow> (case getitem face ((i + 1) mod 3) of
                              Inl e \<Rightarrow> Inl e
                            | Inr y \<Rightarrow> Inr {x, y}))
           [0..<3]"

text \<open>
  The body of the loop over \<open>edge_counts.items()\<close>.  The unpacking
  \<open>edge1, edge2 = edge_pair\<close> raises unless the set has two elements; which of the two
  comes first does not matter to \<open>length_sq\<close>.
\<close>

definition test2_pair :: "nat set \<times> nat \<Rightarrow> unit \<Rightarrow> py_error + unit" where
  "test2_pair = (\<lambda>(edge_pair, count) _.
     if count = 2 then Inr ()
     else if card edge_pair \<noteq> 2 then Inl ValueError
     else
       (let edge1 = Min edge_pair; edge2 = Max edge_pair in
        case d_midpoint edge1 of
          Inl e \<Rightarrow> Inl e
        | Inr m1 \<Rightarrow>
            (case d_midpoint edge2 of
               Inl e \<Rightarrow> Inl e
             | Inr m2 \<Rightarrow>
                 (let l2 = length_sq m1 m2 in
                  if l2 = 2 \<or> l2 = 4 then Inr () else Inl AssertionError))))"

definition test2_bits :: "faces pydict \<Rightarrow> int \<Rightarrow> unit \<Rightarrow> py_error + unit" where
  "test2_bits cases bits = (\<lambda>_.
     (case dict_get cases bits of
        Inl e \<Rightarrow> Inl e
      | Inr faces \<Rightarrow>
          (case map_e face_pairs faces of
             Inl e \<Rightarrow> Inl e
           | Inr pss \<Rightarrow> for_e (Counter (concat pss)) test2_pair ())))"

definition test2 :: "faces pydict \<Rightarrow> py_error + unit" where
  "test2 cases = for_e [0..255] (test2_bits cases) ()"

text \<open>The list that is printed: \<open>[cases[i] for i in range(256)]\<close>.\<close>

definition emit :: "faces pydict \<Rightarrow> py_error + faces list" where
  "emit cases = map_e (dict_get cases) [0..255]"

text \<open>The whole script: build, check, print.\<close>

definition generate :: "py_error + faces list" where
  "generate =
     (case build_cases of
        Inl e \<Rightarrow> Inl e
      | Inr cases \<Rightarrow>
          (case test1 cases of
             Inl e \<Rightarrow> Inl e
           | Inr _ \<Rightarrow>
               (case test2 cases of
                  Inl e \<Rightarrow> Inl e
                | Inr _ \<Rightarrow> emit cases)))"

section \<open>Notions used in the statements and proofs\<close>

text \<open>
  A vertex permutation is a list of the eight corner indices in some order.
\<close>

definition is_perm :: "perm \<Rightarrow> bool" where
  "is_perm op \<longleftrightarrow> length op = 8 \<and> distinct op \<and> (\<forall>v\<in>set op. v < 8)"

text \<open>The two corners of an edge, as a set.\<close>

definition edge_set :: "nat \<Rightarrow> nat set" where
  "edge_set e = {fst (EDGES ! e), snd (EDGES ! e)}"

text \<open>
  A symmetry of the cube is a vertex permutation that carries every edge to an edge,
  that is, one for which \<open>edge_apply\<close> never raises.
\<close>

definition symmetry :: "perm \<Rightarrow> bool" where
  "symmetry op \<longleftrightarrow> is_perm op \<and> (\<forall>e<12. \<exists>e'<12. edge_apply op e = Inr e')"

text \<open>The number of solid corners of a bit pattern, as the script reads it.\<close>

definition solid_count :: "int \<Rightarrow> nat" where
  "solid_count n = length (bits_to_verts n)"

text \<open>
  The position of the first entry with key \<open>k\<close> in a dict (its length when there is
  none), and the same search in a list of keys, counting from \<open>n\<close>.
\<close>

definition key_index :: "('k \<times> 'v) list \<Rightarrow> 'k \<Rightarrow> nat" where
  "key_index xs k = length (takeWhile (\<lambda>p. fst p \<noteq> k) xs)"

definition idx :: "'k list \<Rightarrow> 'k \<Rightarrow> nat \<Rightarrow> nat" where
  "idx ks k n = n + length (takeWhile (\<lambda>x. x \<noteq> k) ks)"

subsection \<open>The dict that the closure loop builds\<close>

text \<open>
  The 256 entries of \<open>cases\<close> in the order in which the loop inserts them, in sixteen
  parts of sixteen entries.  That the loop builds exactly this dict is proved below
  (\<open>build_cases_eval\<close>).
\<close>

definition cases_part_0 :: "faces pydict" where
  "cases_part_0 =
    [(0, []),
     (1, [[8, 0, 3]]),
     (3, [[8, 1, 3], [8, 9, 1]]),
     (5, [[8, 0, 3], [1, 10, 2]]),
     (65, [[8, 0, 3], [10, 6, 5]]),
     (50, [[8, 7, 0], [0, 7, 1], [1, 7, 5]]),
     (67, [[8, 1, 3], [8, 9, 1], [10, 6, 5]]),
     (74, [[3, 2, 11], [0, 9, 1], [10, 6, 5]]),
     (51, [[7, 5, 3], [3, 5, 1]]),
     (177, [[11, 6, 3], [3, 6, 0], [0, 6, 5], [0, 5, 9]]),
     (105, [[11, 8, 2], [8, 2, 0], [6, 10, 4], [4, 10, 9]]),
     (113, [[3, 7, 0], [0, 7, 10], [7, 6, 10], [0, 10, 9]]),
     (58, [[3, 2, 11], [8, 7, 0], [0, 7, 1], [1, 7, 5]]),
     (165, [[8, 0, 3], [4, 5, 9], [10, 2, 1], [11, 6, 7]]),
     (178, [[8, 11, 0], [0, 11, 5], [5, 11, 6], [0, 5, 1]]),
     (250, [[3, 2, 8], [8, 2, 10], [8, 10, 1], [8, 1, 0]])]"

definition cases_part_1 :: "faces pydict" where
  "cases_part_1 =
    [(188, [[6, 8, 3], [6, 9, 8], [6, 5, 9], [6, 3, 1], [6, 10, 1]]),
     (181, [[3, 11, 0], [0, 11, 6], [0, 6, 9], [9, 6, 5], [1, 10, 2]]),
     (197, [[8, 0, 3], [2, 7, 11], [7, 2, 1], [7, 1, 5]]),
     (2, [[1, 0, 9]]),
     (10, [[1, 0, 9], [2, 11, 3]]),
     (130, [[1, 0, 9], [7, 6, 11]]),
     (49, [[0, 5, 9], [3, 5, 0], [7, 5, 3]]),
     (131, [[1, 3, 9], [3, 8, 9], [7, 6, 11]]),
     (133, [[10, 2, 1], [3, 8, 0], [7, 6, 11]]),
     (114, [[1, 6, 10], [0, 6, 1], [7, 6, 0], [8, 7, 0]]),
     (150, [[2, 9, 10], [0, 2, 9], [4, 11, 6], [8, 11, 4]]),
     (53, [[10, 2, 1], [0, 5, 9], [3, 5, 0], [7, 5, 3]]),
     (90, [[1, 0, 9], [8, 7, 4], [3, 2, 11], [5, 6, 10]]),
     (245, [[9, 2, 1], [11, 2, 9], [3, 11, 9], [0, 3, 9]]),
     (124, [[1, 9, 6], [9, 8, 6], [8, 7, 6], [3, 1, 6], [3, 11, 6]]),
     (122, [[0, 10, 1], [6, 10, 0], [8, 6, 0], [7, 6, 8], [2, 11, 3]])]"

definition cases_part_2 :: "faces pydict" where
  "cases_part_2 =
    [(202, [[1, 0, 9], [10, 5, 2], [3, 2, 5], [7, 3, 5]]),
     (34, [[0, 5, 1], [0, 4, 5]]),
     (66, [[0, 9, 1], [5, 6, 10]]),
     (162, [[0, 5, 1], [0, 4, 5], [6, 11, 7]]),
     (164, [[1, 10, 2], [9, 4, 5], [6, 11, 7]]),
     (27, [[2, 11, 1], [1, 11, 9], [9, 11, 7], [9, 7, 4]]),
     (147, [[1, 3, 9], [9, 3, 6], [3, 11, 6], [9, 6, 4]]),
     (57, [[0, 2, 9], [9, 2, 7], [7, 2, 11], [9, 7, 5]]),
     (189, [[1, 10, 0], [0, 10, 6], [0, 6, 5], [0, 5, 9]]),
     (93, [[11, 0, 1], [11, 4, 0], [11, 7, 4], [11, 1, 5], [11, 6, 5]]),
     (91, [[1, 2, 9], [9, 2, 11], [9, 11, 4], [4, 11, 7], [5, 6, 10]]),
     (17, [[3, 7, 0], [7, 4, 0]]),
     (129, [[3, 8, 0], [11, 6, 7]]),
     (81, [[3, 7, 0], [7, 4, 0], [5, 10, 6]]),
     (88, [[2, 11, 3], [7, 4, 8], [5, 10, 6]]),
     (39, [[3, 10, 2], [8, 10, 3], [5, 10, 8], [4, 5, 8]])]"

definition cases_part_3 :: "faces pydict" where
  "cases_part_3 =
    [(99, [[8, 1, 3], [6, 1, 8], [6, 10, 1], [4, 6, 8]]),
     (54, [[8, 2, 0], [5, 2, 8], [10, 2, 5], [7, 5, 8]]),
     (126, [[0, 11, 3], [6, 11, 0], [7, 6, 0], [8, 7, 0]]),
     (174, [[3, 0, 10], [0, 4, 10], [4, 5, 10], [7, 3, 10], [7, 6, 10]]),
     (167, [[8, 2, 3], [10, 2, 8], [4, 10, 8], [5, 10, 4], [11, 6, 7]]),
     (32, [[9, 4, 5]]),
     (48, [[9, 7, 5], [9, 8, 7]]),
     (160, [[9, 4, 5], [7, 11, 6]]),
     (40, [[9, 4, 5], [11, 2, 3]]),
     (19, [[9, 1, 4], [4, 1, 7], [7, 1, 3]]),
     (56, [[9, 7, 5], [9, 8, 7], [11, 2, 3]]),
     (43, [[5, 1, 4], [4, 1, 11], [1, 2, 11], [4, 11, 8]]),
     (83, [[5, 6, 10], [9, 1, 4], [4, 1, 7], [7, 1, 3]]),
     (23, [[9, 10, 4], [4, 10, 3], [3, 10, 2], [4, 3, 7]]),
     (95, [[5, 6, 9], [9, 6, 11], [9, 11, 7], [9, 7, 4]]),
     (199, [[2, 9, 5], [2, 8, 9], [2, 3, 8], [2, 5, 7], [2, 11, 7]])]"

definition cases_part_4 :: "faces pydict" where
  "cases_part_4 =
    [(172, [[9, 4, 5], [6, 1, 10], [1, 6, 7], [1, 7, 3]]),
     (16, [[7, 4, 8]]),
     (80, [[7, 4, 8], [6, 10, 5]]),
     (20, [[7, 4, 8], [1, 2, 10]]),
     (35, [[4, 3, 8], [5, 3, 4], [1, 3, 5]]),
     (52, [[7, 5, 8], [5, 9, 8], [1, 2, 10]]),
     (163, [[11, 6, 7], [4, 3, 8], [5, 3, 4], [1, 3, 5]]),
     (175, [[8, 6, 7], [10, 6, 8], [5, 10, 8], [4, 5, 8]]),
     (203, [[7, 8, 2], [8, 9, 2], [9, 1, 2], [5, 7, 2], [5, 10, 2]]),
     (92, [[7, 4, 8], [11, 3, 6], [5, 6, 3], [1, 5, 3]]),
     (24, [[4, 8, 7], [3, 2, 11]]),
     (21, [[4, 3, 7], [4, 0, 3], [2, 10, 1]]),
     (231, [[7, 11, 4], [4, 11, 2], [4, 2, 3], [4, 3, 8]]),
     (234, [[10, 4, 7], [10, 0, 4], [10, 1, 0], [10, 7, 3], [10, 2, 3]]),
     (36, [[5, 9, 4], [10, 2, 1]]),
     (42, [[5, 1, 4], [1, 0, 4], [3, 11, 2]])]"

definition cases_part_5 :: "faces pydict" where
  "cases_part_5 =
    [(219, [[4, 10, 5], [2, 10, 4], [1, 2, 4], [9, 1, 4]]),
     (213, [[5, 4, 11], [4, 0, 11], [0, 3, 11], [1, 5, 11], [1, 2, 11]]),
     (8, [[3, 2, 11]]),
     (12, [[3, 10, 11], [3, 1, 10]]),
     (72, [[3, 2, 11], [10, 5, 6]]),
     (7, [[3, 8, 2], [2, 8, 10], [10, 8, 9]]),
     (44, [[3, 10, 11], [3, 1, 10], [5, 4, 9]]),
     (15, [[8, 9, 11], [11, 9, 10]]),
     (170, [[7, 3, 6], [3, 6, 2], [4, 5, 0], [0, 5, 1]]),
     (135, [[11, 6, 7], [3, 8, 2], [2, 8, 10], [10, 8, 9]]),
     (183, [[11, 6, 3], [3, 6, 5], [3, 5, 10], [3, 10, 2]]),
     (211, [[4, 3, 11], [4, 1, 3], [4, 9, 1], [4, 11, 10], [4, 5, 10]]),
     (120, [[3, 2, 11], [6, 8, 7], [8, 6, 10], [8, 10, 9]]),
     (4, [[10, 2, 1]]),
     (132, [[10, 2, 1], [6, 7, 11]]),
     (11, [[2, 9, 1], [11, 9, 2], [8, 9, 11]])]"

definition cases_part_6 :: "faces pydict" where
  "cases_part_6 =
    [(28, [[10, 11, 1], [11, 3, 1], [8, 4, 7]]),
     (85, [[6, 1, 5], [2, 6, 1], [0, 7, 4], [3, 7, 0]]),
     (75, [[5, 6, 10], [2, 9, 1], [11, 9, 2], [8, 9, 11]]),
     (123, [[1, 6, 10], [7, 6, 1], [11, 7, 1], [2, 11, 1]]),
     (227, [[10, 1, 4], [1, 3, 4], [3, 8, 4], [11, 10, 4], [11, 7, 4]]),
     (180, [[10, 2, 1], [5, 9, 6], [11, 6, 9], [8, 11, 9]]),
     (68, [[1, 6, 2], [1, 5, 6]]),
     (98, [[1, 0, 10], [10, 0, 6], [6, 0, 4]]),
     (84, [[1, 6, 2], [1, 5, 6], [7, 8, 4]]),
     (102, [[0, 4, 2], [2, 4, 6]]),
     (60, [[3, 1, 11], [1, 11, 10], [8, 7, 9], [9, 7, 5]]),
     (106, [[2, 11, 3], [1, 0, 10], [10, 0, 6], [6, 0, 4]]),
     (171, [[8, 1, 2], [8, 5, 1], [8, 4, 5], [8, 2, 6], [8, 7, 6]]),
     (149, [[1, 10, 2], [11, 0, 3], [0, 11, 6], [0, 6, 4]]),
     (136, [[2, 6, 3], [6, 7, 3]]),
     (145, [[11, 0, 3], [6, 0, 11], [4, 0, 6]])]"

definition cases_part_7 :: "faces pydict" where
  "cases_part_7 =
    [(168, [[2, 6, 3], [6, 7, 3], [4, 9, 5]]),
     (153, [[2, 4, 0], [6, 4, 2]]),
     (87, [[2, 3, 9], [3, 7, 9], [7, 4, 9], [6, 2, 9], [6, 5, 9]]),
     (64, [[5, 6, 10]]),
     (192, [[5, 11, 10], [5, 7, 11]]),
     (176, [[5, 9, 6], [6, 9, 11], [11, 9, 8]]),
     (193, [[5, 11, 10], [5, 7, 11], [3, 0, 8]]),
     (240, [[9, 8, 10], [10, 8, 11]]),
     (62, [[0, 5, 10], [0, 7, 5], [0, 8, 7], [0, 10, 11], [0, 3, 11]]),
     (128, [[11, 6, 7]]),
     (112, [[6, 8, 7], [10, 8, 6], [9, 8, 10]]),
     (194, [[11, 10, 7], [10, 5, 7], [9, 0, 1]]),
     (61, [[11, 7, 0], [7, 5, 0], [5, 9, 0], [10, 11, 0], [10, 1, 0]]),
     (25, [[7, 4, 11], [11, 4, 2], [2, 4, 0]]),
     (138, [[7, 2, 6], [7, 3, 2], [1, 9, 0]]),
     (195, [[5, 7, 10], [7, 10, 11], [9, 1, 8], [8, 1, 3]])]"

definition cases_part_8 :: "faces pydict" where
  "cases_part_8 =
    [(89, [[6, 10, 5], [7, 4, 11], [11, 4, 2], [2, 4, 0]]),
     (117, [[9, 7, 6], [9, 3, 7], [9, 0, 3], [9, 6, 2], [9, 1, 2]]),
     (166, [[7, 11, 6], [10, 4, 5], [4, 10, 2], [4, 2, 0]]),
     (38, [[10, 4, 5], [2, 4, 10], [0, 4, 2]]),
     (69, [[6, 2, 5], [2, 1, 5], [0, 8, 3]]),
     (186, [[6, 5, 8], [5, 1, 8], [1, 0, 8], [2, 6, 8], [2, 3, 8]]),
     (76, [[11, 3, 6], [6, 3, 5], [5, 3, 1]]),
     (82, [[7, 4, 8], [6, 10, 5], [9, 0, 1]]),
     (204, [[3, 1, 7], [7, 1, 5]]),
     (141, [[8, 0, 7], [7, 0, 6], [6, 0, 1], [6, 1, 10]]),
     (142, [[7, 3, 6], [6, 3, 9], [3, 0, 9], [6, 9, 10]]),
     (77, [[11, 8, 6], [6, 8, 1], [1, 8, 0], [6, 1, 5]]),
     (173, [[7, 8, 6], [6, 8, 0], [6, 0, 10], [10, 0, 1], [5, 9, 4]]),
     (140, [[6, 1, 10], [7, 1, 6], [3, 1, 7]]),
     (161, [[9, 4, 5], [7, 11, 6], [3, 0, 8]]),
     (78, [[5, 0, 9], [6, 0, 5], [3, 0, 6], [11, 3, 6]])]"

definition cases_part_9 :: "faces pydict" where
  "cases_part_9 =
    [(94, [[6, 9, 5], [0, 9, 6], [11, 0, 6], [3, 0, 11], [4, 8, 7]]),
     (196, [[2, 1, 11], [11, 1, 7], [7, 1, 5]]),
     (108, [[3, 1, 11], [11, 1, 4], [1, 9, 4], [11, 4, 6]]),
     (198, [[2, 0, 11], [11, 0, 5], [5, 0, 9], [11, 5, 7]]),
     (200, [[10, 3, 2], [5, 3, 10], [7, 3, 5]]),
     (156, [[10, 3, 1], [4, 3, 10], [4, 8, 3], [6, 4, 10]]),
     (201, [[10, 0, 2], [7, 0, 10], [8, 0, 7], [5, 7, 10]]),
     (26, [[1, 0, 9], [2, 11, 3], [8, 4, 7]]),
     (228, [[9, 4, 1], [1, 4, 2], [2, 4, 7], [2, 7, 11]]),
     (212, [[1, 5, 2], [2, 5, 8], [5, 4, 8], [2, 8, 11]]),
     (232, [[10, 9, 2], [2, 9, 7], [7, 9, 4], [2, 7, 3]]),
     (229, [[1, 9, 2], [2, 9, 4], [2, 4, 11], [11, 4, 7], [3, 8, 0]]),
     (37, [[8, 0, 3], [1, 10, 2], [5, 4, 9]]),
     (216, [[3, 4, 8], [2, 4, 3], [5, 4, 2], [10, 5, 2]]),
     (218, [[2, 8, 3], [4, 8, 2], [10, 4, 2], [5, 4, 10], [0, 9, 1]]),
     (18, [[7, 4, 8], [9, 1, 0]])]"

definition cases_part_10 :: "faces pydict" where
  "cases_part_10 =
    [(224, [[7, 11, 4], [4, 11, 9], [9, 11, 10]]),
     (225, [[8, 0, 3], [7, 11, 4], [4, 11, 9], [9, 11, 10]]),
     (237, [[8, 0, 7], [7, 0, 1], [7, 1, 9], [7, 9, 4]]),
     (30, [[7, 4, 8], [0, 11, 3], [11, 0, 9], [11, 9, 10]]),
     (33, [[9, 4, 5], [0, 3, 8]]),
     (208, [[4, 10, 5], [8, 10, 4], [11, 10, 8]]),
     (210, [[1, 0, 9], [4, 10, 5], [8, 10, 4], [11, 10, 8]]),
     (222, [[5, 0, 9], [3, 0, 5], [8, 3, 5], [4, 8, 5]]),
     (45, [[9, 4, 5], [1, 10, 0], [8, 0, 10], [11, 8, 10]]),
     (152, [[3, 2, 8], [8, 2, 4], [4, 2, 6]]),
     (154, [[0, 9, 1], [3, 2, 8], [8, 2, 4], [4, 2, 6]]),
     (101, [[3, 8, 0], [9, 2, 1], [2, 9, 4], [2, 4, 6]]),
     (100, [[9, 2, 1], [4, 2, 9], [6, 2, 4]]),
     (13, [[1, 10, 0], [0, 10, 8], [8, 10, 11]]),
     (14, [[0, 11, 3], [9, 11, 0], [10, 11, 9]]),
     (70, [[5, 6, 9], [9, 6, 0], [0, 6, 2]])]"

definition cases_part_11 :: "faces pydict" where
  "cases_part_11 =
    [(86, [[4, 8, 7], [5, 6, 9], [9, 6, 0], [0, 6, 2]]),
     (169, [[5, 9, 4], [8, 6, 7], [6, 8, 0], [6, 0, 2]]),
     (137, [[8, 6, 7], [0, 6, 8], [2, 6, 0]]),
     (6, [[9, 2, 0], [9, 10, 2]]),
     (134, [[9, 2, 0], [9, 10, 2], [11, 7, 6]]),
     (226, [[0, 4, 1], [1, 4, 11], [4, 7, 11], [1, 11, 10]]),
     (116, [[9, 8, 1], [1, 8, 6], [6, 8, 7], [1, 6, 2]]),
     (121, [[7, 9, 0], [7, 10, 9], [7, 6, 10], [7, 0, 2], [7, 11, 2]]),
     (9, [[0, 2, 8], [2, 11, 8]]),
     (73, [[0, 2, 8], [2, 11, 8], [6, 5, 10]]),
     (209, [[3, 4, 0], [10, 4, 3], [10, 5, 4], [11, 10, 3]]),
     (184, [[3, 9, 8], [6, 9, 3], [5, 9, 6], [2, 6, 3]]),
     (182, [[0, 8, 5], [8, 11, 5], [11, 6, 5], [2, 0, 5], [2, 10, 5]]),
     (96, [[4, 10, 9], [4, 6, 10]]),
     (104, [[4, 10, 9], [4, 6, 10], [2, 3, 11]]),
     (151, [[3, 4, 9], [3, 6, 4], [3, 11, 6], [3, 9, 10], [3, 2, 10]])]"

definition cases_part_12 :: "faces pydict" where
  "cases_part_12 =
    [(144, [[8, 11, 4], [11, 6, 4]]),
     (148, [[8, 11, 4], [11, 6, 4], [10, 1, 2]]),
     (107, [[8, 4, 1], [4, 6, 1], [6, 10, 1], [11, 8, 1], [11, 2, 1]]),
     (29, [[4, 0, 7], [7, 0, 10], [0, 1, 10], [7, 10, 11]]),
     (139, [[8, 9, 7], [7, 9, 2], [2, 9, 1], [7, 2, 6]]),
     (46, [[5, 0, 4], [11, 0, 5], [11, 3, 0], [10, 11, 5]]),
     (71, [[5, 8, 9], [2, 8, 5], [3, 8, 2], [6, 2, 5]]),
     (97, [[10, 4, 6], [10, 9, 4], [8, 3, 0]]),
     (158, [[3, 10, 6], [3, 9, 10], [3, 0, 9], [3, 6, 4], [3, 8, 4]]),
     (146, [[6, 4, 11], [4, 8, 11], [0, 1, 9]]),
     (109, [[6, 11, 1], [11, 8, 1], [8, 0, 1], [4, 6, 1], [4, 9, 1]]),
     (41, [[11, 0, 2], [11, 8, 0], [9, 5, 4]]),
     (214, [[5, 11, 2], [5, 8, 11], [5, 4, 8], [5, 2, 0], [5, 9, 0]]),
     (22, [[2, 0, 10], [0, 9, 10], [4, 7, 8]]),
     (233, [[2, 10, 7], [10, 9, 7], [9, 4, 7], [0, 2, 7], [0, 8, 7]]),
     (255, [])]"

definition cases_part_13 :: "faces pydict" where
  "cases_part_13 =
    [(254, [[3, 0, 8]]),
     (252, [[3, 1, 8], [1, 9, 8]]),
     (190, [[3, 0, 8], [5, 6, 10]]),
     (205, [[0, 7, 8], [1, 7, 0], [5, 7, 1]]),
     (253, [[9, 0, 1]]),
     (125, [[9, 0, 1], [11, 6, 7]]),
     (206, [[9, 5, 0], [0, 5, 3], [3, 5, 7]]),
     (221, [[1, 5, 0], [5, 4, 0]]),
     (238, [[0, 7, 3], [0, 4, 7]]),
     (223, [[5, 4, 9]]),
     (207, [[5, 7, 9], [7, 8, 9]]),
     (215, [[5, 4, 9], [3, 2, 11]]),
     (236, [[4, 1, 9], [7, 1, 4], [3, 1, 7]]),
     (239, [[8, 4, 7]]),
     (235, [[8, 4, 7], [10, 2, 1]]),
     (220, [[8, 3, 4], [4, 3, 5], [5, 3, 1]])]"

definition cases_part_14 :: "faces pydict" where
  "cases_part_14 =
    [(247, [[11, 2, 3]]),
     (243, [[11, 10, 3], [10, 1, 3]]),
     (248, [[2, 8, 3], [10, 8, 2], [9, 8, 10]]),
     (251, [[1, 2, 10]]),
     (244, [[1, 9, 2], [2, 9, 11], [11, 9, 8]]),
     (187, [[2, 6, 1], [6, 5, 1]]),
     (157, [[10, 0, 1], [6, 0, 10], [4, 0, 6]]),
     (119, [[3, 6, 2], [3, 7, 6]]),
     (110, [[3, 0, 11], [11, 0, 6], [6, 0, 4]]),
     (191, [[10, 6, 5]]),
     (63, [[10, 11, 5], [11, 7, 5]]),
     (79, [[6, 9, 5], [11, 9, 6], [8, 9, 11]]),
     (127, [[7, 6, 11]]),
     (143, [[7, 8, 6], [6, 8, 10], [10, 8, 9]]),
     (230, [[11, 4, 7], [2, 4, 11], [0, 4, 2]]),
     (217, [[5, 4, 10], [10, 4, 2], [2, 4, 0]])]"

definition cases_part_15 :: "faces pydict" where
  "cases_part_15 =
    [(179, [[6, 3, 11], [5, 3, 6], [1, 3, 5]]),
     (115, [[10, 1, 6], [6, 1, 7], [7, 1, 3]]),
     (59, [[11, 1, 2], [7, 1, 11], [5, 1, 7]]),
     (55, [[2, 3, 10], [10, 3, 5], [5, 3, 7]]),
     (31, [[4, 11, 7], [9, 11, 4], [10, 11, 9]]),
     (47, [[5, 10, 4], [4, 10, 8], [8, 10, 11]]),
     (103, [[8, 2, 3], [4, 2, 8], [6, 2, 4]]),
     (155, [[1, 2, 9], [9, 2, 4], [4, 2, 6]]),
     (242, [[0, 10, 1], [8, 10, 0], [11, 10, 8]]),
     (241, [[3, 11, 0], [0, 11, 9], [9, 11, 10]]),
     (185, [[9, 6, 5], [0, 6, 9], [2, 6, 0]]),
     (118, [[7, 6, 8], [8, 6, 0], [0, 6, 2]]),
     (249, [[0, 2, 9], [2, 10, 9]]),
     (246, [[8, 2, 0], [8, 11, 2]]),
     (159, [[9, 10, 4], [10, 6, 4]]),
     (111, [[4, 11, 8], [4, 6, 11]])]"

definition final_cases :: "faces pydict" where
  "final_cases =
     cases_part_0 @ cases_part_1 @ cases_part_2 @ cases_part_3 @
     cases_part_4 @ cases_part_5 @ cases_part_6 @ cases_part_7 @
     cases_part_8 @ cases_part_9 @ cases_part_10 @ cases_part_11 @
     cases_part_12 @ cases_part_13 @ cases_part_14 @ cases_part_15"

text \<open>
  The list that the script prints, indexed by bit pattern
  (\<open>generate_eval\<close> below).
\<close>

definition table :: "faces list" where
  "table =
    [[],
     [[8, 0, 3]],
     [[1, 0, 9]],
     [[8, 1, 3], [8, 9, 1]],
     [[10, 2, 1]],
     [[8, 0, 3], [1, 10, 2]],
     [[9, 2, 0], [9, 10, 2]],
     [[3, 8, 2], [2, 8, 10], [10, 8, 9]],
     [[3, 2, 11]],
     [[0, 2, 8], [2, 11, 8]],
     [[1, 0, 9], [2, 11, 3]],
     [[2, 9, 1], [11, 9, 2], [8, 9, 11]],
     [[3, 10, 11], [3, 1, 10]],
     [[1, 10, 0], [0, 10, 8], [8, 10, 11]],
     [[0, 11, 3], [9, 11, 0], [10, 11, 9]],
     [[8, 9, 11], [11, 9, 10]],
     [[7, 4, 8]],
     [[3, 7, 0], [7, 4, 0]],
     [[7, 4, 8], [9, 1, 0]],
     [[9, 1, 4], [4, 1, 7], [7, 1, 3]],
     [[7, 4, 8], [1, 2, 10]],
     [[4, 3, 7], [4, 0, 3], [2, 10, 1]],
     [[2, 0, 10], [0, 9, 10], [4, 7, 8]],
     [[9, 10, 4], [4, 10, 3], [3, 10, 2], [4, 3, 7]],
     [[4, 8, 7], [3, 2, 11]],
     [[7, 4, 11], [11, 4, 2], [2, 4, 0]],
     [[1, 0, 9], [2, 11, 3], [8, 4, 7]],
     [[2, 11, 1], [1, 11, 9], [9, 11, 7], [9, 7, 4]],
     [[10, 11, 1], [11, 3, 1], [8, 4, 7]],
     [[4, 0, 7], [7, 0, 10], [0, 1, 10], [7, 10, 11]],
     [[7, 4, 8], [0, 11, 3], [11, 0, 9], [11, 9, 10]],
     [[4, 11, 7], [9, 11, 4], [10, 11, 9]],
     [[9, 4, 5]],
     [[9, 4, 5], [0, 3, 8]],
     [[0, 5, 1], [0, 4, 5]],
     [[4, 3, 8], [5, 3, 4], [1, 3, 5]],
     [[5, 9, 4], [10, 2, 1]],
     [[8, 0, 3], [1, 10, 2], [5, 4, 9]],
     [[10, 4, 5], [2, 4, 10], [0, 4, 2]],
     [[3, 10, 2], [8, 10, 3], [5, 10, 8], [4, 5, 8]],
     [[9, 4, 5], [11, 2, 3]],
     [[11, 0, 2], [11, 8, 0], [9, 5, 4]],
     [[5, 1, 4], [1, 0, 4], [3, 11, 2]],
     [[5, 1, 4], [4, 1, 11], [1, 2, 11], [4, 11, 8]],
     [[3, 10, 11], [3, 1, 10], [5, 4, 9]],
     [[9, 4, 5], [1, 10, 0], [8, 0, 10], [11, 8, 10]],
     [[5, 0, 4], [11, 0, 5], [11, 3, 0], [10, 11, 5]],
     [[5, 10, 4], [4, 10, 8], [8, 10, 11]],
     [[9, 7, 5], [9, 8, 7]],
     [[0, 5, 9], [3, 5, 0], [7, 5, 3]],
     [[8, 7, 0], [0, 7, 1], [1, 7, 5]],
     [[7, 5, 3], [3, 5, 1]],
     [[7, 5, 8], [5, 9, 8], [1, 2, 10]],
     [[10, 2, 1], [0, 5, 9], [3, 5, 0], [7, 5, 3]],
     [[8, 2, 0], [5, 2, 8], [10, 2, 5], [7, 5, 8]],
     [[2, 3, 10], [10, 3, 5], [5, 3, 7]],
     [[9, 7, 5], [9, 8, 7], [11, 2, 3]],
     [[0, 2, 9], [9, 2, 7], [7, 2, 11], [9, 7, 5]],
     [[3, 2, 11], [8, 7, 0], [0, 7, 1], [1, 7, 5]],
     [[11, 1, 2], [7, 1, 11], [5, 1, 7]],
     [[3, 1, 11], [1, 11, 10], [8, 7, 9], [9, 7, 5]],
     [[11, 7, 0], [7, 5, 0], [5, 9, 0], [10, 11, 0], [10, 1, 0]],
     [[0, 5, 10], [0, 7, 5], [0, 8, 7], [0, 10, 11], [0, 3, 11]],
     [[10, 11, 5], [11, 7, 5]],
     [[5, 6, 10]],
     [[8, 0, 3], [10, 6, 5]],
     [[0, 9, 1], [5, 6, 10]],
     [[8, 1, 3], [8, 9, 1], [10, 6, 5]],
     [[1, 6, 2], [1, 5, 6]],
     [[6, 2, 5], [2, 1, 5], [0, 8, 3]],
     [[5, 6, 9], [9, 6, 0], [0, 6, 2]],
     [[5, 8, 9], [2, 8, 5], [3, 8, 2], [6, 2, 5]],
     [[3, 2, 11], [10, 5, 6]],
     [[0, 2, 8], [2, 11, 8], [6, 5, 10]],
     [[3, 2, 11], [0, 9, 1], [10, 6, 5]],
     [[5, 6, 10], [2, 9, 1], [11, 9, 2], [8, 9, 11]],
     [[11, 3, 6], [6, 3, 5], [5, 3, 1]],
     [[11, 8, 6], [6, 8, 1], [1, 8, 0], [6, 1, 5]],
     [[5, 0, 9], [6, 0, 5], [3, 0, 6], [11, 3, 6]],
     [[6, 9, 5], [11, 9, 6], [8, 9, 11]],
     [[7, 4, 8], [6, 10, 5]],
     [[3, 7, 0], [7, 4, 0], [5, 10, 6]],
     [[7, 4, 8], [6, 10, 5], [9, 0, 1]],
     [[5, 6, 10], [9, 1, 4], [4, 1, 7], [7, 1, 3]],
     [[1, 6, 2], [1, 5, 6], [7, 8, 4]],
     [[6, 1, 5], [2, 6, 1], [0, 7, 4], [3, 7, 0]],
     [[4, 8, 7], [5, 6, 9], [9, 6, 0], [0, 6, 2]],
     [[2, 3, 9], [3, 7, 9], [7, 4, 9], [6, 2, 9], [6, 5, 9]],
     [[2, 11, 3], [7, 4, 8], [5, 10, 6]],
     [[6, 10, 5], [7, 4, 11], [11, 4, 2], [2, 4, 0]],
     [[1, 0, 9], [8, 7, 4], [3, 2, 11], [5, 6, 10]],
     [[1, 2, 9], [9, 2, 11], [9, 11, 4], [4, 11, 7], [5, 6, 10]],
     [[7, 4, 8], [11, 3, 6], [5, 6, 3], [1, 5, 3]],
     [[11, 0, 1], [11, 4, 0], [11, 7, 4], [11, 1, 5], [11, 6, 5]],
     [[6, 9, 5], [0, 9, 6], [11, 0, 6], [3, 0, 11], [4, 8, 7]],
     [[5, 6, 9], [9, 6, 11], [9, 11, 7], [9, 7, 4]],
     [[4, 10, 9], [4, 6, 10]],
     [[10, 4, 6], [10, 9, 4], [8, 3, 0]],
     [[1, 0, 10], [10, 0, 6], [6, 0, 4]],
     [[8, 1, 3], [6, 1, 8], [6, 10, 1], [4, 6, 8]],
     [[9, 2, 1], [4, 2, 9], [6, 2, 4]],
     [[3, 8, 0], [9, 2, 1], [2, 9, 4], [2, 4, 6]],
     [[0, 4, 2], [2, 4, 6]],
     [[8, 2, 3], [4, 2, 8], [6, 2, 4]],
     [[4, 10, 9], [4, 6, 10], [2, 3, 11]],
     [[11, 8, 2], [8, 2, 0], [6, 10, 4], [4, 10, 9]],
     [[2, 11, 3], [1, 0, 10], [10, 0, 6], [6, 0, 4]],
     [[8, 4, 1], [4, 6, 1], [6, 10, 1], [11, 8, 1], [11, 2, 1]],
     [[3, 1, 11], [11, 1, 4], [1, 9, 4], [11, 4, 6]],
     [[6, 11, 1], [11, 8, 1], [8, 0, 1], [4, 6, 1], [4, 9, 1]],
     [[3, 0, 11], [11, 0, 6], [6, 0, 4]],
     [[4, 11, 8], [4, 6, 11]],
     [[6, 8, 7], [10, 8, 6], [9, 8, 10]],
     [[3, 7, 0], [0, 7, 10], [7, 6, 10], [0, 10, 9]],
     [[1, 6, 10], [0, 6, 1], [7, 6, 0], [8, 7, 0]],
     [[10, 1, 6], [6, 1, 7], [7, 1, 3]],
     [[9, 8, 1], [1, 8, 6], [6, 8, 7], [1, 6, 2]],
     [[9, 7, 6], [9, 3, 7], [9, 0, 3], [9, 6, 2], [9, 1, 2]],
     [[7, 6, 8], [8, 6, 0], [0, 6, 2]],
     [[3, 6, 2], [3, 7, 6]],
     [[3, 2, 11], [6, 8, 7], [8, 6, 10], [8, 10, 9]],
     [[7, 9, 0], [7, 10, 9], [7, 6, 10], [7, 0, 2], [7, 11, 2]],
     [[0, 10, 1], [6, 10, 0], [8, 6, 0], [7, 6, 8], [2, 11, 3]],
     [[1, 6, 10], [7, 6, 1], [11, 7, 1], [2, 11, 1]],
     [[1, 9, 6], [9, 8, 6], [8, 7, 6], [3, 1, 6], [3, 11, 6]],
     [[9, 0, 1], [11, 6, 7]],
     [[0, 11, 3], [6, 11, 0], [7, 6, 0], [8, 7, 0]],
     [[7, 6, 11]],
     [[11, 6, 7]],
     [[3, 8, 0], [11, 6, 7]],
     [[1, 0, 9], [7, 6, 11]],
     [[1, 3, 9], [3, 8, 9], [7, 6, 11]],
     [[10, 2, 1], [6, 7, 11]],
     [[10, 2, 1], [3, 8, 0], [7, 6, 11]],
     [[9, 2, 0], [9, 10, 2], [11, 7, 6]],
     [[11, 6, 7], [3, 8, 2], [2, 8, 10], [10, 8, 9]],
     [[2, 6, 3], [6, 7, 3]],
     [[8, 6, 7], [0, 6, 8], [2, 6, 0]],
     [[7, 2, 6], [7, 3, 2], [1, 9, 0]],
     [[8, 9, 7], [7, 9, 2], [2, 9, 1], [7, 2, 6]],
     [[6, 1, 10], [7, 1, 6], [3, 1, 7]],
     [[8, 0, 7], [7, 0, 6], [6, 0, 1], [6, 1, 10]],
     [[7, 3, 6], [6, 3, 9], [3, 0, 9], [6, 9, 10]],
     [[7, 8, 6], [6, 8, 10], [10, 8, 9]],
     [[8, 11, 4], [11, 6, 4]],
     [[11, 0, 3], [6, 0, 11], [4, 0, 6]],
     [[6, 4, 11], [4, 8, 11], [0, 1, 9]],
     [[1, 3, 9], [9, 3, 6], [3, 11, 6], [9, 6, 4]],
     [[8, 11, 4], [11, 6, 4], [10, 1, 2]],
     [[1, 10, 2], [11, 0, 3], [0, 11, 6], [0, 6, 4]],
     [[2, 9, 10], [0, 2, 9], [4, 11, 6], [8, 11, 4]],
     [[3, 4, 9], [3, 6, 4], [3, 11, 6], [3, 9, 10], [3, 2, 10]],
     [[3, 2, 8], [8, 2, 4], [4, 2, 6]],
     [[2, 4, 0], [6, 4, 2]],
     [[0, 9, 1], [3, 2, 8], [8, 2, 4], [4, 2, 6]],
     [[1, 2, 9], [9, 2, 4], [4, 2, 6]],
     [[10, 3, 1], [4, 3, 10], [4, 8, 3], [6, 4, 10]],
     [[10, 0, 1], [6, 0, 10], [4, 0, 6]],
     [[3, 10, 6], [3, 9, 10], [3, 0, 9], [3, 6, 4], [3, 8, 4]],
     [[9, 10, 4], [10, 6, 4]],
     [[9, 4, 5], [7, 11, 6]],
     [[9, 4, 5], [7, 11, 6], [3, 0, 8]],
     [[0, 5, 1], [0, 4, 5], [6, 11, 7]],
     [[11, 6, 7], [4, 3, 8], [5, 3, 4], [1, 3, 5]],
     [[1, 10, 2], [9, 4, 5], [6, 11, 7]],
     [[8, 0, 3], [4, 5, 9], [10, 2, 1], [11, 6, 7]],
     [[7, 11, 6], [10, 4, 5], [4, 10, 2], [4, 2, 0]],
     [[8, 2, 3], [10, 2, 8], [4, 10, 8], [5, 10, 4], [11, 6, 7]],
     [[2, 6, 3], [6, 7, 3], [4, 9, 5]],
     [[5, 9, 4], [8, 6, 7], [6, 8, 0], [6, 0, 2]],
     [[7, 3, 6], [3, 6, 2], [4, 5, 0], [0, 5, 1]],
     [[8, 1, 2], [8, 5, 1], [8, 4, 5], [8, 2, 6], [8, 7, 6]],
     [[9, 4, 5], [6, 1, 10], [1, 6, 7], [1, 7, 3]],
     [[7, 8, 6], [6, 8, 0], [6, 0, 10], [10, 0, 1], [5, 9, 4]],
     [[3, 0, 10], [0, 4, 10], [4, 5, 10], [7, 3, 10], [7, 6, 10]],
     [[8, 6, 7], [10, 6, 8], [5, 10, 8], [4, 5, 8]],
     [[5, 9, 6], [6, 9, 11], [11, 9, 8]],
     [[11, 6, 3], [3, 6, 0], [0, 6, 5], [0, 5, 9]],
     [[8, 11, 0], [0, 11, 5], [5, 11, 6], [0, 5, 1]],
     [[6, 3, 11], [5, 3, 6], [1, 3, 5]],
     [[10, 2, 1], [5, 9, 6], [11, 6, 9], [8, 11, 9]],
     [[3, 11, 0], [0, 11, 6], [0, 6, 9], [9, 6, 5], [1, 10, 2]],
     [[0, 8, 5], [8, 11, 5], [11, 6, 5], [2, 0, 5], [2, 10, 5]],
     [[11, 6, 3], [3, 6, 5], [3, 5, 10], [3, 10, 2]],
     [[3, 9, 8], [6, 9, 3], [5, 9, 6], [2, 6, 3]],
     [[9, 6, 5], [0, 6, 9], [2, 6, 0]],
     [[6, 5, 8], [5, 1, 8], [1, 0, 8], [2, 6, 8], [2, 3, 8]],
     [[2, 6, 1], [6, 5, 1]],
     [[6, 8, 3], [6, 9, 8], [6, 5, 9], [6, 3, 1], [6, 10, 1]],
     [[1, 10, 0], [0, 10, 6], [0, 6, 5], [0, 5, 9]],
     [[3, 0, 8], [5, 6, 10]],
     [[10, 6, 5]],
     [[5, 11, 10], [5, 7, 11]],
     [[5, 11, 10], [5, 7, 11], [3, 0, 8]],
     [[11, 10, 7], [10, 5, 7], [9, 0, 1]],
     [[5, 7, 10], [7, 10, 11], [9, 1, 8], [8, 1, 3]],
     [[2, 1, 11], [11, 1, 7], [7, 1, 5]],
     [[8, 0, 3], [2, 7, 11], [7, 2, 1], [7, 1, 5]],
     [[2, 0, 11], [11, 0, 5], [5, 0, 9], [11, 5, 7]],
     [[2, 9, 5], [2, 8, 9], [2, 3, 8], [2, 5, 7], [2, 11, 7]],
     [[10, 3, 2], [5, 3, 10], [7, 3, 5]],
     [[10, 0, 2], [7, 0, 10], [8, 0, 7], [5, 7, 10]],
     [[1, 0, 9], [10, 5, 2], [3, 2, 5], [7, 3, 5]],
     [[7, 8, 2], [8, 9, 2], [9, 1, 2], [5, 7, 2], [5, 10, 2]],
     [[3, 1, 7], [7, 1, 5]],
     [[0, 7, 8], [1, 7, 0], [5, 7, 1]],
     [[9, 5, 0], [0, 5, 3], [3, 5, 7]],
     [[5, 7, 9], [7, 8, 9]],
     [[4, 10, 5], [8, 10, 4], [11, 10, 8]],
     [[3, 4, 0], [10, 4, 3], [10, 5, 4], [11, 10, 3]],
     [[1, 0, 9], [4, 10, 5], [8, 10, 4], [11, 10, 8]],
     [[4, 3, 11], [4, 1, 3], [4, 9, 1], [4, 11, 10], [4, 5, 10]],
     [[1, 5, 2], [2, 5, 8], [5, 4, 8], [2, 8, 11]],
     [[5, 4, 11], [4, 0, 11], [0, 3, 11], [1, 5, 11], [1, 2, 11]],
     [[5, 11, 2], [5, 8, 11], [5, 4, 8], [5, 2, 0], [5, 9, 0]],
     [[5, 4, 9], [3, 2, 11]],
     [[3, 4, 8], [2, 4, 3], [5, 4, 2], [10, 5, 2]],
     [[5, 4, 10], [10, 4, 2], [2, 4, 0]],
     [[2, 8, 3], [4, 8, 2], [10, 4, 2], [5, 4, 10], [0, 9, 1]],
     [[4, 10, 5], [2, 10, 4], [1, 2, 4], [9, 1, 4]],
     [[8, 3, 4], [4, 3, 5], [5, 3, 1]],
     [[1, 5, 0], [5, 4, 0]],
     [[5, 0, 9], [3, 0, 5], [8, 3, 5], [4, 8, 5]],
     [[5, 4, 9]],
     [[7, 11, 4], [4, 11, 9], [9, 11, 10]],
     [[8, 0, 3], [7, 11, 4], [4, 11, 9], [9, 11, 10]],
     [[0, 4, 1], [1, 4, 11], [4, 7, 11], [1, 11, 10]],
     [[10, 1, 4], [1, 3, 4], [3, 8, 4], [11, 10, 4], [11, 7, 4]],
     [[9, 4, 1], [1, 4, 2], [2, 4, 7], [2, 7, 11]],
     [[1, 9, 2], [2, 9, 4], [2, 4, 11], [11, 4, 7], [3, 8, 0]],
     [[11, 4, 7], [2, 4, 11], [0, 4, 2]],
     [[7, 11, 4], [4, 11, 2], [4, 2, 3], [4, 3, 8]],
     [[10, 9, 2], [2, 9, 7], [7, 9, 4], [2, 7, 3]],
     [[2, 10, 7], [10, 9, 7], [9, 4, 7], [0, 2, 7], [0, 8, 7]],
     [[10, 4, 7], [10, 0, 4], [10, 1, 0], [10, 7, 3], [10, 2, 3]],
     [[8, 4, 7], [10, 2, 1]],
     [[4, 1, 9], [7, 1, 4], [3, 1, 7]],
     [[8, 0, 7], [7, 0, 1], [7, 1, 9], [7, 9, 4]],
     [[0, 7, 3], [0, 4, 7]],
     [[8, 4, 7]],
     [[9, 8, 10], [10, 8, 11]],
     [[3, 11, 0], [0, 11, 9], [9, 11, 10]],
     [[0, 10, 1], [8, 10, 0], [11, 10, 8]],
     [[11, 10, 3], [10, 1, 3]],
     [[1, 9, 2], [2, 9, 11], [11, 9, 8]],
     [[9, 2, 1], [11, 2, 9], [3, 11, 9], [0, 3, 9]],
     [[8, 2, 0], [8, 11, 2]],
     [[11, 2, 3]],
     [[2, 8, 3], [10, 8, 2], [9, 8, 10]],
     [[0, 2, 9], [2, 10, 9]],
     [[3, 2, 8], [8, 2, 10], [8, 10, 1], [8, 1, 0]],
     [[1, 2, 10]],
     [[3, 1, 8], [1, 9, 8]],
     [[9, 0, 1]],
     [[3, 0, 8]],
     []]"

section \<open>Loops and comprehensions\<close>

lemma for_e_append:
  "for_e (xs @ ys) body s =
     (case for_e xs body s of Inl e \<Rightarrow> Inl e | Inr s' \<Rightarrow> for_e ys body s')"
  by (induction xs arbitrary: s) (auto split: sum.splits)

lemma for_e_unit: "for_e xs body () = Inr () \<longleftrightarrow> (\<forall>x\<in>set xs. body x () = Inr ())"
  by (induction xs) (auto split: sum.splits)

lemma map_e_Inr:
  "(\<And>x. x \<in> set xs \<Longrightarrow> f x = Inr (g x)) \<Longrightarrow> map_e f xs = Inr (map g xs)"
  by (induction xs) auto

lemma map_e_Inr_D:
  "map_e f xs = Inr ys \<Longrightarrow>
     length ys = length xs \<and> (\<forall>i<length xs. f (xs ! i) = Inr (ys ! i))"
proof (induction xs arbitrary: ys)
  case Nil
  then show ?case by simp
next
  case (Cons x xs)
  then show ?case
    by (auto split: sum.splits simp: nth_Cons split: nat.splits)
qed

section \<open>Bit patterns and corner lists\<close>

lemma pos_and_exp_iff_bit: "0 < 2 ^ v AND (n::int) \<longleftrightarrow> bit n v"
proof -
  have "0 \<le> 2 ^ v AND n" by simp
  moreover have "2 ^ v AND n = 0 \<longleftrightarrow> \<not> bit n v"
    by (simp add: and.commute and_exp_eq_0_iff_not_bit)
  ultimately show ?thesis by linarith
qed

lemma bits_to_verts_set: "set (bits_to_verts n) = {v. v < 8 \<and> bit n v}"
  by (auto simp: bits_to_verts_def pos_and_exp_iff_bit)

lemma bits_to_verts_distinct: "distinct (bits_to_verts n)"
  by (simp add: bits_to_verts_def)

lemma bits_to_verts_lt: "v \<in> set (bits_to_verts n) \<Longrightarrow> v < 8"
  by (simp add: bits_to_verts_set)

lemma bit_verts_to_bits: "distinct vs \<Longrightarrow> bit (verts_to_bits vs) k \<longleftrightarrow> k \<in> set vs"
proof (induction vs arbitrary: k)
  case Nil
  then show ?case by (simp add: verts_to_bits_def)
next
  case (Cons v vs)
  from Cons.prems have "v \<notin> set vs" and "distinct vs"
    by simp_all
  have IH: "bit (verts_to_bits vs) j \<longleftrightarrow> j \<in> set vs" for j
    by (rule Cons.IH [OF \<open>distinct vs\<close>])
  have "verts_to_bits (v # vs) = 2 ^ v + verts_to_bits vs"
    by (simp add: verts_to_bits_def)
  also have "\<dots> = 2 ^ v OR verts_to_bits vs"
  proof (rule disjunctive_add)
    fix n
    show "\<not> bit (2 ^ v :: int) n \<or> \<not> bit (verts_to_bits vs) n"
      using IH \<open>v \<notin> set vs\<close> by (auto simp: bit_exp_iff)
  qed
  finally show ?case
    using IH by (auto simp: bit_or_iff bit_exp_iff)
qed

lemma bits_to_verts_verts_to_bits:
  "distinct ws \<Longrightarrow> set (bits_to_verts (verts_to_bits ws)) = {w \<in> set ws. w < 8}"
  by (auto simp: bits_to_verts_set bit_verts_to_bits)

lemma verts_to_bits_map_sum:
  "distinct vs \<Longrightarrow> verts_to_bits (map f vs) = (\<Sum>v\<in>set vs. 2 ^ f v)"
  using sum_list_distinct_conv_sum_set [of vs "\<lambda>v. 2 ^ f v"]
  by (simp add: verts_to_bits_def comp_def)

lemma verts_to_bits_bits_to_verts:
  assumes "0 \<le> n" and "n \<le> 255"
  shows "verts_to_bits (bits_to_verts n) = n"
proof (rule bit_eqI)
  fix k
  have "take_bit 8 n = n"
    using assms by (simp add: take_bit_int_eq_self)
  then have "bit n k \<longleftrightarrow> k < 8 \<and> bit n k"
    by (metis bit_take_bit_iff)
  then show "bit (verts_to_bits (bits_to_verts n)) k \<longleftrightarrow> bit n k"
    by (simp add: bit_verts_to_bits bits_to_verts_distinct bits_to_verts_set)
qed

section \<open>Applying a permutation to a bit pattern\<close>

lemma getitem_perm:
  "length op = 8 \<Longrightarrow> \<forall>v\<in>set vs. v < 8 \<Longrightarrow> map_e (getitem op) vs = Inr (map ((!) op) vs)"
  by (rule map_e_Inr) (simp add: getitem_def)

lemma bits_apply_perm:
  "length op = 8 \<Longrightarrow>
     bits_apply op n = Inr (verts_to_bits (map ((!) op) (bits_to_verts n)))"
  by (simp add: bits_apply_def getitem_perm bits_to_verts_lt)

lemma bits_apply_sum:
  "length op = 8 \<Longrightarrow> bits_apply op n = Inr (\<Sum>v\<in>set (bits_to_verts n). 2 ^ (op ! v))"
  by (simp add: bits_apply_perm verts_to_bits_map_sum bits_to_verts_distinct)

lemma is_perm_inj: "is_perm op \<Longrightarrow> inj_on ((!) op) {v. v < 8}"
  by (auto simp: is_perm_def inj_on_def nth_eq_iff_index_eq)

lemma is_perm_nth_lt: "is_perm op \<Longrightarrow> v < 8 \<Longrightarrow> op ! v < 8"
  by (simp add: is_perm_def)

lemma bits_to_verts_bits_apply:
  assumes "is_perm op" and "bits_apply op n = Inr m"
  shows "set (bits_to_verts m) = (!) op ` set (bits_to_verts n)"
proof -
  have len: "length op = 8" using assms(1) by (simp add: is_perm_def)
  have inj: "inj_on ((!) op) (set (bits_to_verts n))"
    by (rule inj_on_subset [OF is_perm_inj [OF assms(1)]]) (auto simp: bits_to_verts_set)
  have m: "m = verts_to_bits (map ((!) op) (bits_to_verts n))"
    using assms(2) by (simp add: bits_apply_perm len)
  have "distinct (map ((!) op) (bits_to_verts n))"
    by (simp add: distinct_map bits_to_verts_distinct inj)
  then have "set (bits_to_verts m) = {w \<in> (!) op ` set (bits_to_verts n). w < 8}"
    unfolding m by (simp add: bits_to_verts_verts_to_bits)
  also have "\<dots> = (!) op ` set (bits_to_verts n)"
    using is_perm_nth_lt [OF assms(1)] by (auto simp: bits_to_verts_set)
  finally show ?thesis .
qed

section \<open>The edge lookup\<close>

lemma upt8: "[0..<8] = [0, 1, 2, 3, 4, 5, 6, 7]"
  by (simp add: upt_rec)

lemma upt12: "[0..<12] = [0, 1, 2, 3, 4, 5, 6, 7, 8, 9, 10, 11]"
  by (simp add: upt_rec)

lemma lt12: "(e::nat) < 12 \<longleftrightarrow> e \<in> {0, 1, 2, 3, 4, 5, 6, 7, 8, 9, 10, 11}"
proof -
  have "e < 12 \<longleftrightarrow> e \<in> set [0..<12]" by simp
  then show ?thesis unfolding upt12 by simp
qed

lemma lt8: "(v::nat) < 8 \<longleftrightarrow> v \<in> {0, 1, 2, 3, 4, 5, 6, 7}"
proof -
  have "v < 8 \<longleftrightarrow> v \<in> set [0..<8]" by simp
  then show ?thesis unfolding upt8 by simp
qed

lemma EDGES_BY_VERTSET_eval:
  "EDGES_BY_VERTSET =
     [{0, 1} \<mapsto> 0, {1, 2} \<mapsto> 1, {2, 3} \<mapsto> 2, {3, 0} \<mapsto> 3,
      {4, 5} \<mapsto> 4, {5, 6} \<mapsto> 5, {6, 7} \<mapsto> 6, {7, 4} \<mapsto> 7,
      {0, 4} \<mapsto> 8, {1, 5} \<mapsto> 9, {2, 6} \<mapsto> 10, {3, 7} \<mapsto> 11]"
  by (simp add: EDGES_BY_VERTSET_def EDGES_def eval_nat_numeral)

lemma edge_of_eval:
  "edge_of vs =
    (if vs = {3, 7} then Inr 11 else if vs = {2, 6} then Inr 10
     else if vs = {1, 5} then Inr 9 else if vs = {0, 4} then Inr 8
     else if vs = {7, 4} then Inr 7 else if vs = {6, 7} then Inr 6
     else if vs = {5, 6} then Inr 5 else if vs = {4, 5} then Inr 4
     else if vs = {3, 0} then Inr 3 else if vs = {2, 3} then Inr 2
     else if vs = {1, 2} then Inr 1 else if vs = {0, 1} then Inr 0
     else Inl KeyError)"
  by (simp add: edge_of_def EDGES_BY_VERTSET_eval)

lemma edge_set_eval:
  "edge_set 0 = {0, 1}" "edge_set 1 = {1, 2}" "edge_set 2 = {2, 3}" "edge_set 3 = {3, 0}"
  "edge_set 4 = {4, 5}" "edge_set 5 = {5, 6}" "edge_set 6 = {6, 7}" "edge_set 7 = {7, 4}"
  "edge_set 8 = {0, 4}" "edge_set 9 = {1, 5}" "edge_set 10 = {2, 6}" "edge_set 11 = {3, 7}"
  "edge_set (Suc 0) = {1, 2}"
  by (simp_all add: edge_set_def EDGES_def)

lemma edge_of_edge_set: "e < 12 \<Longrightarrow> edge_of (edge_set e) = Inr e"
  unfolding lt12 insert_iff empty_iff
  by (elim disjE) (simp_all add: edge_set_eval edge_of_eval doubleton_eq_iff)

lemma edge_of_cases:
  assumes "edge_of vs = Inr e"
  shows "(vs = {0, 1} \<and> e = 0) \<or> (vs = {1, 2} \<and> e = 1) \<or> (vs = {2, 3} \<and> e = 2)
    \<or> (vs = {3, 0} \<and> e = 3) \<or> (vs = {4, 5} \<and> e = 4) \<or> (vs = {5, 6} \<and> e = 5)
    \<or> (vs = {6, 7} \<and> e = 6) \<or> (vs = {7, 4} \<and> e = 7) \<or> (vs = {0, 4} \<and> e = 8)
    \<or> (vs = {1, 5} \<and> e = 9) \<or> (vs = {2, 6} \<and> e = 10) \<or> (vs = {3, 7} \<and> e = 11)"
  using assms unfolding edge_of_eval by (simp split: if_splits)

lemma edge_of_Inr: "edge_of vs = Inr e \<Longrightarrow> e < 12 \<and> vs = edge_set e"
  by (drule edge_of_cases) (elim disjE conjE; simp add: edge_set_eval)

lemma edge_of_Inl:
  assumes "edge_of vs = Inl err"
  shows "err = KeyError \<and> (\<forall>e<12. vs \<noteq> edge_set e)"
proof -
  have "err = KeyError"
    using assms by (simp add: edge_of_def split: option.splits)
  moreover have "vs \<noteq> edge_set e" if "e < 12" for e
    using edge_of_edge_set [OF that] assms by auto
  ultimately show ?thesis by blast
qed

lemma edge_set_lt: "e < 12 \<Longrightarrow> v \<in> edge_set e \<Longrightarrow> v < 8"
  unfolding lt12 insert_iff empty_iff
  by (elim disjE) (auto simp: edge_set_eval)

lemma edge_apply_eq:
  assumes "length op = 8" and "e < 12"
  shows "edge_apply op e = edge_of ((!) op ` edge_set e)"
proof -
  obtain a b where ab: "EDGES ! e = (a, b)" by (cases "EDGES ! e")
  then have "a \<in> edge_set e" "b \<in> edge_set e" by (simp_all add: edge_set_def)
  then have "a < 8" "b < 8" using edge_set_lt [OF assms(2)] by blast+
  moreover have "getitem EDGES e = Inr (a, b)"
    using assms(2) ab by (simp add: getitem_def EDGES_def)
  ultimately show ?thesis
    using assms(1) ab by (simp add: edge_apply_def getitem_def edge_set_def)
qed

section \<open>Symmetries are closed under composition\<close>

lemma compose2_eq:
  assumes "length op1 = 8" and "\<forall>v\<in>set op1. v < length op2"
  shows "compose [op1, op2] = Inr (map (\<lambda>v. op2 ! (op1 ! v)) [0..<8])"
  using assms by (auto intro!: map_e_Inr simp: getitem_def)

lemma is_perm_compose2:
  assumes "is_perm op1" and "is_perm op2"
  shows "\<exists>c. compose [op1, op2] = Inr c \<and> is_perm c \<and> (\<forall>v<8. c ! v = op2 ! (op1 ! v))"
proof -
  let ?f = "\<lambda>v. op2 ! (op1 ! v)"
  let ?c = "map ?f [0..<8]"
  have "compose [op1, op2] = Inr ?c"
    using assms by (intro compose2_eq) (auto simp: is_perm_def)
  moreover have inj: "inj_on ?f {v. v < 8}"
  proof (rule inj_onI)
    fix x y
    assume xy: "x \<in> {v. v < 8}" "y \<in> {v. v < 8}" and eq: "op2 ! (op1 ! x) = op2 ! (op1 ! y)"
    from xy have "op1 ! x \<in> {v. v < 8}" "op1 ! y \<in> {v. v < 8}"
      using is_perm_nth_lt [OF assms(1)] by simp_all
    with eq have "op1 ! x = op1 ! y"
      using is_perm_inj [OF assms(2)] by (blast dest: inj_onD)
    with xy show "x = y"
      using is_perm_inj [OF assms(1)] by (blast dest: inj_onD)
  qed
  have "is_perm ?c"
  proof -
    have "set [0..<8] = {v. v < (8::nat)}" by auto
    with inj have "distinct ?c" by (simp add: distinct_map)
    moreover have "\<forall>w\<in>set ?c. w < 8"
      using is_perm_nth_lt [OF assms(2)] is_perm_nth_lt [OF assms(1)] by auto
    ultimately show ?thesis by (simp add: is_perm_def)
  qed
  moreover have "\<forall>v<8. ?c ! v = op2 ! (op1 ! v)"
    by simp
  ultimately show ?thesis by blast
qed

lemma symmetry_compose2:
  assumes "symmetry op1" and "symmetry op2"
  shows "\<exists>c. compose [op1, op2] = Inr c \<and> symmetry c"
proof -
  from assms have p1: "is_perm op1" and p2: "is_perm op2"
    by (simp_all add: symmetry_def)
  from is_perm_compose2 [OF p1 p2] obtain c where
    c: "compose [op1, op2] = Inr c" "is_perm c" and nth: "\<And>v. v < 8 \<Longrightarrow> c ! v = op2 ! (op1 ! v)"
    by blast
  have len: "length op1 = 8" "length op2 = 8" "length c = 8"
    using p1 p2 c(2) by (simp_all add: is_perm_def)
  have "\<exists>e'<12. edge_apply c e = Inr e'" if e: "e < 12" for e
  proof -
    from assms(1) e obtain e1 where e1: "e1 < 12" "edge_apply op1 e = Inr e1"
      by (auto simp: symmetry_def)
    from assms(2) e1(1) obtain e2 where e2: "e2 < 12" "edge_apply op2 e1 = Inr e2"
      by (auto simp: symmetry_def)
    have "(!) op1 ` edge_set e = edge_set e1"
      using e1(2) edge_of_Inr by (simp add: edge_apply_eq [OF len(1) e])
    moreover have "(!) c ` edge_set e = (!) op2 ` ((!) op1 ` edge_set e)"
      using nth edge_set_lt [OF e] by (auto simp: image_iff) 
    ultimately have "edge_apply c e = edge_apply op2 e1"
      by (simp add: edge_apply_eq [OF len(3) e] edge_apply_eq [OF len(2) e1(1)])
    with e2 show ?thesis by auto
  qed
  with c show ?thesis by (auto simp: symmetry_def)
qed

lemma identity_symmetry: "symmetry [0, 1, 2, 3, 4, 5, 6, 7]"
  unfolding symmetry_def is_perm_def lt12 
  by (simp add: edge_apply_def getitem_def EDGES_def edge_of_eval doubleton_eq_iff)

lemma compose_symmetry:
  "\<forall>op\<in>set ops. symmetry op \<Longrightarrow> \<exists>c. compose ops = Inr c \<and> symmetry c"
proof (induction ops rule: compose.induct)
  case 1
  show ?case using identity_symmetry by simp
next
  case (2 op1)
  then show ?case by simp
next
  case (3 op1 op2)
  then show ?case using symmetry_compose2 by simp
next
  case (4 op1 v va vb)
  then obtain r where r: "compose (v # va # vb) = Inr r" "symmetry r"
    by auto
  moreover from 4 have "symmetry op1" by simp
  ultimately show ?case
    using symmetry_compose2 [of op1 r] by simp
qed

lemma pow_symmetry: "symmetry op \<Longrightarrow> \<exists>c. pow op n = Inr c \<and> symmetry c"
  unfolding pow_def by (rule compose_symmetry) simp

lemma generators_symmetry:
  "symmetry ROTATE_1" "symmetry ROTATE_2" "symmetry ROTATE_3" "symmetry REFLECT"
  unfolding symmetry_def is_perm_def lt12 ROTATE_1_def ROTATE_2_def ROTATE_3_def REFLECT_def
  by (simp_all add: edge_apply_def getitem_def EDGES_def edge_of_eval doubleton_eq_iff)

lemma make_op_symmetry: "\<exists>op. make_op r1 r2 r3 rfl = Inr op \<and> symmetry op"
proof -
  obtain p1 where p1: "pow ROTATE_1 r1 = Inr p1" "symmetry p1"
    using pow_symmetry generators_symmetry(1) by blast
  obtain p2 where p2: "pow ROTATE_2 r2 = Inr p2" "symmetry p2"
    using pow_symmetry generators_symmetry(2) by blast
  obtain p3 where p3: "pow ROTATE_3 r3 = Inr p3" "symmetry p3"
    using pow_symmetry generators_symmetry(3) by blast
  obtain p4 where p4: "pow REFLECT rfl = Inr p4" "symmetry p4"
    using pow_symmetry generators_symmetry(4) by blast
  have "\<exists>c. compose [p1, p2, p3, p4] = Inr c \<and> symmetry c"
    by (rule compose_symmetry) (simp add: p1 p2 p3 p4)
  then show ?thesis
    by (simp add: make_op_def p1 p2 p3 p4)
qed

section \<open>The claims\<close>

text \<open>
  C7.  Generator orders: raising each of the three rotation generators to the fourth
  power, and the reflection to the second, gives the identity permutation, and the
  zeroth power of any permutation is the identity permutation.
\<close>

theorem generator_orders:
  "pow ROTATE_1 4 = Inr [0, 1, 2, 3, 4, 5, 6, 7]
   \<and> pow ROTATE_2 4 = Inr [0, 1, 2, 3, 4, 5, 6, 7]
   \<and> pow ROTATE_3 4 = Inr [0, 1, 2, 3, 4, 5, 6, 7]
   \<and> pow REFLECT 2 = Inr [0, 1, 2, 3, 4, 5, 6, 7]
   \<and> (\<forall>perm. pow perm 0 = Inr [0, 1, 2, 3, 4, 5, 6, 7])
   \<and> compose [] = Inr [0, 1, 2, 3, 4, 5, 6, 7]"
  by (simp add: pow_def ROTATE_1_def ROTATE_2_def ROTATE_3_def REFLECT_def
      eval_nat_numeral upt8 getitem_def)

end
